theory Spec2Isabelle
  imports Main "HOL-Library.Sublist"
begin

section \<open>A model of the shell fragment the scripts are written in\<close>

text \<open>
  The deployment tooling of the repository is three bash scripts:
  \<^verbatim>\<open>scripts/deploy-kubernetes.sh\<close>, \<^verbatim>\<open>scripts/build-docker.sh\<close> and the status check
  \<^verbatim>\<open>scripts/check-docker-k8s.sh\<close>. Each is a sequence of \<^verbatim>\<open>echo\<close> lines and of calls
  to external tools (\<^verbatim>\<open>kubectl\<close>, \<^verbatim>\<open>docker\<close>, ...), glued by \<^verbatim>\<open>if\<close>, \<^verbatim>\<open>||\<close>,
  \<^verbatim>\<open>&&\<close>, \<^verbatim>\<open>!\<close>, \<^verbatim>\<open>exit\<close> and \<^verbatim>\<open>set -e\<close>. A statement of a script is a function
  on the state of the shell, and a script is the list of its statements.

  An external call is a question to the environment: the command line is what the
  script decides, the exit status and the standard output are what the environment
  answers. Everything outside the shell (the cluster, the docker daemon, the file system,
  the search path) is therefore one state of type \<open>'s\<close> and a client function that
  answers a command in a state with an exit status, the text it wrote to standard output
  and the next state. Redirections such as \<^verbatim>\<open>&> /dev/null\<close> and \<^verbatim>\<open>2>/dev/null\<close> only hide
  what the tool itself prints; they are left out of the command lines. What a tool prints
  by itself is not part of the transcript: the transcript holds the lines of the script.
\<close>

type_synonym argv = "string list"

datatype cmd =
    Simple argv          \<comment> \<open>one command with its arguments\<close>
  | Pipe argv argv       \<comment> \<open>\<^verbatim>\<open>a | b\<close>: status and output are those of the pipeline\<close>

type_synonym 's client = "cmd \<Rightarrow> 's \<Rightarrow> nat \<times> string \<times> 's"

text \<open>
  The transcript records, in order, every line the script itself prints with \<^verbatim>\<open>echo\<close>
  and every external call it makes, together with the exit status the call returned.
\<close>

datatype event =
    Echo string
  | Exec cmd nat

record 's shell =
  cluster :: 's                   \<comment> \<open>the world outside the shell\<close>
  transcript :: "event list"
  errexit :: bool                 \<comment> \<open>the \<^verbatim>\<open>-e\<close> option\<close>
  status :: nat                   \<comment> \<open>\<^verbatim>\<open>$?\<close>, the exit status of the last command\<close>
  vars :: "string \<Rightarrow> string"       \<comment> \<open>shell variables; an unset variable expands to the empty string\<close>

datatype flow = Go | Halt

type_synonym 's sh = "'s shell \<Rightarrow> flow \<times> 's shell"

definition start :: "'s \<Rightarrow> 's shell" where
  "start s = \<lparr>cluster = s, transcript = [], errexit = False, status = 0, vars = (\<lambda>_. [])\<rparr>"

definition echo :: "string \<Rightarrow> 's sh" where
  "echo l w = (Go, w\<lparr>transcript := transcript w @ [Echo l], status := 0\<rparr>)"

definition run :: "'s client \<Rightarrow> cmd \<Rightarrow> 's sh" where
  "run cl c w =
     (Go, w\<lparr>cluster := snd (snd (cl c (cluster w))),
            transcript := transcript w @ [Exec c (fst (cl c (cluster w)))],
            status := fst (cl c (cluster w))\<rparr>)"

definition set_e :: "'s sh" where
  "set_e w = (Go, w\<lparr>errexit := True, status := 0\<rparr>)"

definition true_sh :: "'s sh" where
  "true_sh w = (Go, w\<lparr>status := 0\<rparr>)"

definition exit_with :: "nat \<Rightarrow> 's sh" where
  "exit_with n w = (Halt, w\<lparr>status := n\<rparr>)"

definition exit_last :: "'s sh" where
  \<comment> \<open>\<^verbatim>\<open>exit\<close> without an operand: the status is that of the last command\<close>
  "exit_last w = (Halt, w)"

definition negate :: "'s sh \<Rightarrow> 's sh" where
  "negate f w =
     (case f w of
        (Halt, w') \<Rightarrow> (Halt, w')
      | (Go, w') \<Rightarrow> (Go, w'\<lparr>status := (if status w' = 0 then 1 else 0)\<rparr>))"

definition or_else :: "'s sh \<Rightarrow> 's sh \<Rightarrow> 's sh" where
  "or_else a b w =
     (case a w of
        (Halt, w') \<Rightarrow> (Halt, w')
      | (Go, w') \<Rightarrow> (if status w' = 0 then (Go, w') else b w'))"

definition and_also :: "'s sh \<Rightarrow> 's sh \<Rightarrow> 's sh" where
  "and_also a b w =
     (case a w of
        (Halt, w') \<Rightarrow> (Halt, w')
      | (Go, w') \<Rightarrow> (if status w' = 0 then b w' else (Go, w')))"

text \<open>
  A list of commands runs in order. With \<^verbatim>\<open>set -e\<close> in force the shell exits after a
  command of the list that returns a non-zero status, with that status. The option does
  not apply to the condition of an \<^verbatim>\<open>if\<close>, to a command before \<^verbatim>\<open>||\<close> or
  \<^verbatim>\<open>&&\<close>, or to a negated command: those are run by the combinators above, which
  never consult \<open>errexit\<close>.
\<close>

fun block :: "'s sh list \<Rightarrow> 's sh" where
  "block [] w = (Go, w)"
| "block (f # fs) w =
     (case f w of
        (Halt, w') \<Rightarrow> (Halt, w')
      | (Go, w') \<Rightarrow> (if errexit w' \<and> status w' \<noteq> 0 then (Halt, w') else block fs w'))"

definition if_then_else :: "'s sh \<Rightarrow> 's sh list \<Rightarrow> 's sh list \<Rightarrow> 's sh" where
  "if_then_else c t e w =
     (case c w of
        (Halt, w') \<Rightarrow> (Halt, w')
      | (Go, w') \<Rightarrow> (if status w' = 0 then block t w' else block e w'))"

definition if_then :: "'s sh \<Rightarrow> 's sh list \<Rightarrow> 's sh" where
  \<comment> \<open>without \<^verbatim>\<open>else\<close>, a false condition leaves status 0\<close>
  "if_then c t w =
     (case c w of
        (Halt, w') \<Rightarrow> (Halt, w')
      | (Go, w') \<Rightarrow> (if status w' = 0 then block t w' else (Go, w'\<lparr>status := 0\<rparr>)))"





text \<open>The exit status of a script: the operand of \<^verbatim>\<open>exit\<close>, or the status of its last command.\<close>

definition exit_code :: "flow \<times> 's shell \<Rightarrow> nat" where
  "exit_code r = status (snd r)"

definition script :: "'s sh \<Rightarrow> 's \<Rightarrow> flow \<times> 's shell" where
  "script f s = f (start s)"

subsection \<open>Non-ASCII characters of the messages, as the UTF-8 bytes the scripts print\<close>

definition rocket :: string where "rocket = [CHR 0xF0, CHR 0x9F, CHR 0x9A, CHR 0x80]"
definition cross_mark :: string where "cross_mark = [CHR 0xE2, CHR 0x9D, CHR 0x8C]"
definition package :: string where "package = [CHR 0xF0, CHR 0x9F, CHR 0x93, CHR 0xA6]"
definition locked_key :: string where "locked_key = [CHR 0xF0, CHR 0x9F, CHR 0x94, CHR 0x90]"
definition gear :: string where "gear = [CHR 0xE2, CHR 0x9A, CHR 0x99, CHR 0xEF, CHR 0xB8, CHR 0x8F]"
definition leaf :: string where "leaf = [CHR 0xF0, CHR 0x9F, CHR 0x8D, CHR 0x83]"
definition hourglass :: string where "hourglass = [CHR 0xE2, CHR 0x8F, CHR 0xB3]"
definition wrench :: string where "wrench = [CHR 0xF0, CHR 0x9F, CHR 0x94, CHR 0xA7]"
definition palette :: string where "palette = [CHR 0xF0, CHR 0x9F, CHR 0x8E, CHR 0xA8]"
definition globe_meridians :: string where "globe_meridians = [CHR 0xF0, CHR 0x9F, CHR 0x8C, CHR 0x90]"
definition warning_sign :: string where "warning_sign = [CHR 0xE2, CHR 0x9A, CHR 0xA0]"
definition variation16 :: string where "variation16 = [CHR 0xEF, CHR 0xB8, CHR 0x8F]"
definition check_mark_button :: string where "check_mark_button = [CHR 0xE2, CHR 0x9C, CHR 0x85]"
definition bar_chart :: string where "bar_chart = [CHR 0xF0, CHR 0x9F, CHR 0x93, CHR 0x8A]"
definition magnifier :: string where "magnifier = [CHR 0xF0, CHR 0x9F, CHR 0x94, CHR 0x8D]"
definition globe_europe :: string where "globe_europe = [CHR 0xF0, CHR 0x9F, CHR 0x8C, CHR 0x8D]"
definition whale :: string where "whale = [CHR 0xF0, CHR 0x9F, CHR 0x90, CHR 0xB3]"
definition clipboard :: string where "clipboard = [CHR 0xF0, CHR 0x9F, CHR 0x93, CHR 0x8B]"
definition outbox :: string where "outbox = [CHR 0xF0, CHR 0x9F, CHR 0x93, CHR 0xA4]"

section \<open>scripts/deploy-kubernetes.sh\<close>

definition kubectl_apply :: "string \<Rightarrow> cmd" where
  "kubectl_apply f = Simple [''kubectl'', ''apply'', ''-f'', f]"

definition command_v :: "string \<Rightarrow> cmd" where
  "command_v tool = Simple [''command'', ''-v'', tool]"

definition cd_kubernetes :: cmd where
  \<comment> \<open>\<^verbatim>\<open>cd "$(dirname "$0")/../kubernetes"\<close>\<close>
  "cd_kubernetes = Simple [''cd'', ''$(dirname $0)/../kubernetes'']"

definition kubectl_wait_mongodb :: cmd where
  "kubectl_wait_mongodb =
     Simple [''kubectl'', ''wait'', ''--for=condition=ready'', ''pod'', ''-l'', ''app=mongodb'',
             ''-n'', ''fullstack-app'', ''--timeout=120s'']"

definition ingress_warning :: string where
  "ingress_warning =
     warning_sign @ variation16 @ ''  Ingress not applied (may need ingress controller)''"

definition deploy_kubernetes :: "'s client \<Rightarrow> 's sh" where
  "deploy_kubernetes cl = block [
     set_e,
     echo (rocket @ '' Starting Kubernetes Deployment...''),
     if_then (negate (run cl (command_v ''kubectl'')))
       [echo (cross_mark @ '' kubectl is not installed. Please install kubectl first.''),
        exit_with 1],
     run cl cd_kubernetes,
     echo (package @ '' Creating namespace...''),
     run cl (kubectl_apply ''namespace.yaml''),
     echo (locked_key @ '' Creating secrets...''),
     run cl (kubectl_apply ''secret.yaml''),
     echo (gear @ ''  Creating configmap...''),
     run cl (kubectl_apply ''configmap.yaml''),
     echo (leaf @ '' Deploying MongoDB...''),
     run cl (kubectl_apply ''mongodb-deployment.yaml''),
     echo (hourglass @ '' Waiting for MongoDB to be ready...''),
     or_else (run cl kubectl_wait_mongodb) true_sh,
     echo (wrench @ '' Deploying backend...''),
     run cl (kubectl_apply ''backend-deployment.yaml''),
     echo (palette @ '' Deploying frontend...''),
     run cl (kubectl_apply ''frontend-deployment.yaml''),
     echo (globe_meridians @ '' Deploying ingress (if available)...''),
     or_else (run cl (kubectl_apply ''ingress.yaml'')) (echo ingress_warning),
     echo [],
     echo (check_mark_button @ '' Deployment complete!''),
     echo [],
     echo (bar_chart @ '' Check deployment status:''),
     echo ''   kubectl get pods -n fullstack-app'',
     echo ''   kubectl get svc -n fullstack-app'',
     echo [],
     echo (magnifier @ '' View logs:''),
     echo ''   kubectl logs -f deployment/backend -n fullstack-app'',
     echo ''   kubectl logs -f deployment/frontend -n fullstack-app'',
     echo [],
     echo (globe_europe @ '' Access application:''),
     echo ''   kubectl port-forward -n fullstack-app svc/frontend-service 3000:80'',
     echo ''   Then open http://localhost:3000'']"


subsection \<open>What a run of the deployment is observed by\<close>

text \<open>
  A resource is submitted to the cluster by \<^verbatim>\<open>kubectl apply -f FILE\<close>; the submissions of a
  run are the manifest files of these calls, in the order of the calls.
\<close>

fun manifest_of :: "event \<Rightarrow> string option" where
  "manifest_of (Exec (Simple [p, a, opt, f]) rc) =
     (if p = ''kubectl'' \<and> a = ''apply'' \<and> opt = ''-f'' then Some f else None)"
| "manifest_of _ = None"

definition submissions :: "event list \<Rightarrow> string list" where
  "submissions tr = List.map_filter manifest_of tr"

fun call_of :: "event \<Rightarrow> cmd option" where
  "call_of (Exec c rc) = Some c"
| "call_of (Echo l) = None"

definition calls :: "event list \<Rightarrow> cmd list" where
  "calls tr = List.map_filter call_of tr"

fun line_of :: "event \<Rightarrow> string option" where
  "line_of (Echo l) = Some l"
| "line_of (Exec c rc) = None"

text \<open>A warning of the deployment script is a line it prints that starts with the warning sign.\<close>

definition is_warning :: "string \<Rightarrow> bool" where
  "is_warning l = prefix warning_sign l"

definition warnings :: "event list \<Rightarrow> string list" where
  "warnings tr = filter is_warning (List.map_filter line_of tr)"

text \<open>
  The order in which the script names the manifests: the namespace, the secret, the
  configuration, the database (the stateful tier), the backend and the frontend (the
  stateless tiers) and the ingress (the routing rule).
\<close>

definition manifest_order :: "string list" where
  "manifest_order =
     [''namespace.yaml'', ''secret.yaml'', ''configmap.yaml'', ''mongodb-deployment.yaml'',
      ''backend-deployment.yaml'', ''frontend-deployment.yaml'', ''ingress.yaml'']"

text \<open>
  A run is complete when the script ran to its last line, and aborted when the shell left
  it before: by \<^verbatim>\<open>exit 1\<close> of the tooling check, or under \<^verbatim>\<open>set -e\<close> after a command
  that failed.
\<close>

datatype terminal = Complete | Aborted

definition terminal :: "flow \<times> 's shell \<Rightarrow> terminal" where
  "terminal r = (case fst r of Go \<Rightarrow> Complete | Halt \<Rightarrow> Aborted)"

text \<open>
  Fake clusters without a state of their own: the exit status is a function of the command
  and nothing is written to standard output. One accepts every command, one never reports
  the database ready, one rejects a single command with status 1, one with a given status.
\<close>

definition fake :: "(cmd \<Rightarrow> nat) \<Rightarrow> unit client" where
  "fake g c s = (g c, [], s)"

definition accepting :: "unit client" where
  "accepting = fake (\<lambda>c. 0)"

definition never_ready :: "unit client" where
  "never_ready = fake (\<lambda>c. if c = kubectl_wait_mongodb then 1 else 0)"

definition rejecting :: "cmd \<Rightarrow> unit client" where
  "rejecting bad = fake (\<lambda>c. if c = bad then 1 else 0)"

definition failing :: "cmd \<Rightarrow> nat \<Rightarrow> unit client" where
  "failing bad rc = fake (\<lambda>c. if c = bad then rc else 0)"

text \<open>The calls of a transcript that returned a non-zero status.\<close>

fun failure_of :: "event \<Rightarrow> (cmd \<times> nat) option" where
  "failure_of (Exec c rc) = (if rc = 0 then None else Some (c, rc))"
| "failure_of (Echo l) = None"

definition failures :: "event list \<Rightarrow> (cmd \<times> nat) list" where
  "failures tr = List.map_filter failure_of tr"

text \<open>The external calls of the script, in the order of its lines.\<close>

definition deploy_calls :: "cmd list" where
  "deploy_calls =
     [command_v ''kubectl'', cd_kubernetes,
      kubectl_apply ''namespace.yaml'', kubectl_apply ''secret.yaml'',
      kubectl_apply ''configmap.yaml'', kubectl_apply ''mongodb-deployment.yaml'',
      kubectl_wait_mongodb,
      kubectl_apply ''backend-deployment.yaml'', kubectl_apply ''frontend-deployment.yaml'',
      kubectl_apply ''ingress.yaml'']"


text \<open>
  A fake cluster with a state: the manifests it holds, and whether the database is ready.
  It rejects every manifest but the namespace as long as it does not hold the namespace;
  applying a manifest it holds changes nothing; it has no ingress controller and rejects the
  ingress; its database is not ready at the first wait and is ready from then on. Every
  other command is accepted.
\<close>

fun applied :: "cmd \<Rightarrow> string option" where
  "applied (Simple [p, a, opt, f]) =
     (if p = ''kubectl'' \<and> a = ''apply'' \<and> opt = ''-f'' then Some f else None)"
| "applied _ = None"



text \<open>The event that follows the first occurrence of an event in a transcript.\<close>

fun after_event :: "event \<Rightarrow> event list \<Rightarrow> event option" where
  "after_event e (x # y # ys) = (if x = e then Some y else after_event e (y # ys))"
| "after_event e _ = None"

subsection \<open>Short names for the command lines, used in the proofs\<close>

definition c_v :: cmd where "c_v = command_v ''kubectl''"
definition c_ns :: cmd where "c_ns = kubectl_apply ''namespace.yaml''"
definition c_sec :: cmd where "c_sec = kubectl_apply ''secret.yaml''"
definition c_cm :: cmd where "c_cm = kubectl_apply ''configmap.yaml''"
definition c_db :: cmd where "c_db = kubectl_apply ''mongodb-deployment.yaml''"
definition c_be :: cmd where "c_be = kubectl_apply ''backend-deployment.yaml''"
definition c_fe :: cmd where "c_fe = kubectl_apply ''frontend-deployment.yaml''"
definition c_ing :: cmd where "c_ing = kubectl_apply ''ingress.yaml''"


subsection \<open>The transcripts a run of the deployment can leave\<close>

text \<open>
  The transcript up to and including each external call, as a function of the statuses the
  calls returned. A call that has to succeed for the script to go on is recorded with status
  0 in the longer transcripts.
\<close>

definition log_tooling :: "nat \<Rightarrow> event list" where
  "log_tooling r = [Echo (rocket @ '' Starting Kubernetes Deployment...''), Exec c_v r]"

definition log_cd :: "nat \<Rightarrow> event list" where
  "log_cd r = log_tooling 0 @ [Exec cd_kubernetes r]"

definition log_ns :: "nat \<Rightarrow> event list" where
  "log_ns r = log_cd 0 @ [Echo (package @ '' Creating namespace...''), Exec c_ns r]"

definition log_sec :: "nat \<Rightarrow> event list" where
  "log_sec r = log_ns 0 @ [Echo (locked_key @ '' Creating secrets...''), Exec c_sec r]"

definition log_cm :: "nat \<Rightarrow> event list" where
  "log_cm r = log_sec 0 @ [Echo (gear @ ''  Creating configmap...''), Exec c_cm r]"

definition log_db :: "nat \<Rightarrow> event list" where
  "log_db r = log_cm 0 @ [Echo (leaf @ '' Deploying MongoDB...''), Exec c_db r]"

definition log_wait :: "nat \<Rightarrow> event list" where
  "log_wait rw =
     log_db 0 @ [Echo (hourglass @ '' Waiting for MongoDB to be ready...''),
                 Exec kubectl_wait_mongodb rw]"

definition log_be :: "nat \<Rightarrow> nat \<Rightarrow> event list" where
  "log_be rw r = log_wait rw @ [Echo (wrench @ '' Deploying backend...''), Exec c_be r]"

definition log_fe :: "nat \<Rightarrow> nat \<Rightarrow> event list" where
  "log_fe rw r = log_be rw 0 @ [Echo (palette @ '' Deploying frontend...''), Exec c_fe r]"

definition epilogue :: "event list" where
  "epilogue =
     [Echo [],
      Echo (check_mark_button @ '' Deployment complete!''),
      Echo [],
      Echo (bar_chart @ '' Check deployment status:''),
      Echo ''   kubectl get pods -n fullstack-app'',
      Echo ''   kubectl get svc -n fullstack-app'',
      Echo [],
      Echo (magnifier @ '' View logs:''),
      Echo ''   kubectl logs -f deployment/backend -n fullstack-app'',
      Echo ''   kubectl logs -f deployment/frontend -n fullstack-app'',
      Echo [],
      Echo (globe_europe @ '' Access application:''),
      Echo ''   kubectl port-forward -n fullstack-app svc/frontend-service 3000:80'',
      Echo ''   Then open http://localhost:3000'']"

definition log_complete :: "nat \<Rightarrow> nat \<Rightarrow> event list" where
  "log_complete rw ri =
     log_fe rw 0 @
     [Echo (globe_meridians @ '' Deploying ingress (if available)...''), Exec c_ing ri] @
     (if ri = 0 then [] else [Echo ingress_warning]) @ epilogue"

definition final :: "'s \<Rightarrow> event list \<Rightarrow> nat \<Rightarrow> 's shell" where
  "final s tr rc = \<lparr>cluster = s, transcript = tr, errexit = True, status = rc, vars = (\<lambda>_. [])\<rparr>"


section \<open>scripts/build-docker.sh\<close>

definition docker_build_backend :: cmd where
  "docker_build_backend =
     Simple [''docker'', ''build'', ''-t'', ''fullstack-app-backend:latest'', ''./backend'']"

definition docker_build_frontend :: cmd where
  "docker_build_frontend =
     Simple [''docker'', ''build'', ''-t'', ''fullstack-app-frontend:latest'',
             ''--build-arg'', ''REACT_APP_BASE_URL=http://localhost:3001'', ''./frontend'']"

definition docker_images_grep :: cmd where
  "docker_images_grep = Pipe [''docker'', ''images''] [''grep'', ''fullstack-app'']"

definition build_docker :: "'s client \<Rightarrow> 's sh" where
  "build_docker cl = block [
     set_e,
     echo (whale @ '' Building Docker Images...''),
     echo (package @ '' Building backend image...''),
     run cl docker_build_backend,
     echo (package @ '' Building frontend image...''),
     run cl docker_build_frontend,
     echo [],
     echo (check_mark_button @ '' Build complete!''),
     echo [],
     echo (clipboard @ '' Available images:''),
     run cl docker_images_grep,
     echo [],
     echo (rocket @ '' To start with docker-compose:''),
     echo ''   docker-compose up'',
     echo [],
     echo (outbox @ '' To load images into minikube:''),
     echo ''   minikube image load fullstack-app-backend:latest'',
     echo ''   minikube image load fullstack-app-frontend:latest'',
     echo [],
     echo (outbox @ '' To load images into kind:''),
     echo ''   kind load docker-image fullstack-app-backend:latest'',
     echo ''   kind load docker-image fullstack-app-frontend:latest'']"

subsection \<open>What a run of the build is observed by\<close>

text \<open>The image builds of a run are its \<^verbatim>\<open>docker build\<close> calls, in order.\<close>

fun is_build :: "cmd \<Rightarrow> bool" where
  "is_build (Simple (p # a # args)) = (p = ''docker'' \<and> a = ''build'')"
| "is_build _ = False"

definition builds :: "event list \<Rightarrow> cmd list" where
  "builds tr = filter is_build (calls tr)"

text \<open>
  The service a build is for is named by its build context, the last argument:
  \<^verbatim>\<open>./backend\<close> or \<^verbatim>\<open>./frontend\<close>.
\<close>

fun service_unit :: "cmd \<Rightarrow> string" where
  "service_unit (Simple av) = drop 2 (last av)"
| "service_unit (Pipe a b) = []"

definition lines_of :: "event list \<Rightarrow> string list" where
  "lines_of tr = List.map_filter line_of tr"

text \<open>
  A call starts the rollout when it runs \<^verbatim>\<open>kubectl\<close> or the deployment script.
\<close>

fun words_of :: "cmd \<Rightarrow> string list" where
  "words_of (Simple av) = av"
| "words_of (Pipe a b) = a @ b"

definition is_rollout_call :: "cmd \<Rightarrow> bool" where
  "is_rollout_call c =
     list_ex (\<lambda>x. x = ''kubectl'' \<or> suffix ''deploy-kubernetes.sh'' x) (words_of c)"

subsection \<open>The transcripts a run of the build can leave\<close>

definition blog_backend :: "nat \<Rightarrow> event list" where
  "blog_backend r =
     [Echo (whale @ '' Building Docker Images...''),
      Echo (package @ '' Building backend image...''),
      Exec docker_build_backend r]"

definition blog_frontend :: "nat \<Rightarrow> event list" where
  "blog_frontend r =
     blog_backend 0 @
     [Echo (package @ '' Building frontend image...''), Exec docker_build_frontend r]"

definition blog_images :: "nat \<Rightarrow> event list" where
  "blog_images r =
     blog_frontend 0 @
     [Echo [],
      Echo (check_mark_button @ '' Build complete!''),
      Echo [],
      Echo (clipboard @ '' Available images:''),
      Exec docker_images_grep r]"

definition blog_complete :: "event list" where
  "blog_complete =
     blog_images 0 @
     [Echo [],
      Echo (rocket @ '' To start with docker-compose:''),
      Echo ''   docker-compose up'',
      Echo [],
      Echo (outbox @ '' To load images into minikube:''),
      Echo ''   minikube image load fullstack-app-backend:latest'',
      Echo ''   minikube image load fullstack-app-frontend:latest'',
      Echo [],
      Echo (outbox @ '' To load images into kind:''),
      Echo ''   kind load docker-image fullstack-app-backend:latest'',
      Echo ''   kind load docker-image fullstack-app-frontend:latest'']"

section \<open>scripts/check-docker-k8s.sh, the verification script\<close>















































subsection \<open>What a run of the verification is observed by\<close>








subsection \<open>Statements that cannot leave the script\<close>








section \<open>backend/app/controllers/user.controller.js\<close>

text \<open>
  The controller maps a request to operations on the \<^verbatim>\<open>Users\<close> collection and to a
  response. A JavaScript object is a finite map from field names to JSON values; a field
  that is \<^verbatim>\<open>undefined\<close> is a field the map does not have.

  The \<^verbatim>\<open>Users\<close> model, the JSON schemas, \<^verbatim>\<open>createToken\<close> and the configuration are not
  among the sources. The collection is therefore a list of documents, and a document holds
  the fields it was constructed or updated with; what the schemas, \<^verbatim>\<open>bcrypt\<close>,
  \<^verbatim>\<open>createToken\<close> and the \<^verbatim>\<open>toObject\<close> of the model compute is a parameter.
\<close>

datatype json =
    JNull
  | JBool bool
  | JNum int
  | JStr string
  | JArr "json list"
  | JObj "(string \<times> json) list"

type_synonym obj = "string \<rightharpoonup> json"

datatype message = Text string | Stacks "string list"

datatype error =
    BadRequestError message
  | NotFoundError
  | UnauthorizedError
  | DatabaseError          \<comment> \<open>an operation on the collection threw\<close>
  | ValidationError        \<comment> \<open>\<^verbatim>\<open>save\<close> refused the document\<close>
  | BcryptError            \<comment> \<open>\<^verbatim>\<open>bcrypt.hash\<close> was given something that is not a string\<close>
  | TypeError              \<comment> \<open>\<^verbatim>\<open>toObject\<close> of \<^verbatim>\<open>null\<close>\<close>

datatype body =
    Token string           \<comment> \<open>\<^verbatim>\<open>{ token }\<close>\<close>
  | Users "obj list"       \<comment> \<open>\<^verbatim>\<open>{ users: [...] }\<close>\<close>
  | User obj               \<comment> \<open>\<^verbatim>\<open>{ user: ... }\<close>\<close>
  | Message string         \<comment> \<open>\<^verbatim>\<open>{ message: ... }\<close>\<close>

text \<open>
  A handler ends by sending a response with a status, by handing an error to \<^verbatim>\<open>next\<close>,
  or, when an awaited call throws outside every \<^verbatim>\<open>try\<close>, with its promise rejected.
\<close>

datatype outcome =
    Reply nat body
  | Next error
  | Rejected error

record db =
  docs :: "obj list"
  online :: bool             \<comment> \<open>when false, every operation on the collection throws\<close>

record deps =
  register_errors :: "obj \<Rightarrow> string list"
    \<comment> \<open>\<^verbatim>\<open>jsonschema.validate(body, userRegisterSchema).errors.map(e => e.stack)\<close>\<close>
  edit_errors :: "obj \<Rightarrow> string list"
    \<comment> \<open>the same for \<^verbatim>\<open>userEditSchema\<close>; a body is valid when there is no error\<close>
  bcrypt_hash :: "string \<Rightarrow> string"
    \<comment> \<open>\<^verbatim>\<open>bcrypt.hash(data, BCRYPT_WORK_FACTOR)\<close>\<close>
  createToken :: "obj \<Rightarrow> string"
  schema_accepts :: "obj \<Rightarrow> bool"
    \<comment> \<open>whether \<^verbatim>\<open>save\<close> accepts the document\<close>
  toObject :: "obj \<Rightarrow> obj"
    \<comment> \<open>the plain object of a document\<close>

definition findOne :: "json option \<Rightarrow> obj list \<Rightarrow> obj option" where
  \<comment> \<open>\<^verbatim>\<open>Users.findOne({ email: e })\<close>: the first document with that email\<close>
  "findOne e ds = List.find (\<lambda>u. u ''email'' = e) ds"

definition delete_password :: "obj \<Rightarrow> obj" where
  \<comment> \<open>\<^verbatim>\<open>delete userObj.password\<close>\<close>
  "delete_password userObj = userObj(''password'' := None)"

definition hashed_password :: "deps \<Rightarrow> obj \<Rightarrow> string option" where
  \<comment> \<open>\<^verbatim>\<open>bcrypt.hash(req.body.password, ...)\<close> throws unless the password is a string\<close>
  "hashed_password d b = (case b ''password'' of Some (JStr p) \<Rightarrow> Some (bcrypt_hash d p) | _ \<Rightarrow> None)"

definition new_user :: "obj \<Rightarrow> string \<Rightarrow> obj" where
  "new_user b hashedPassword =
     (Map.empty(''firstName'' := b ''firstName'', ''lastName'' := b ''lastName'',
        ''email'' := b ''email''))
     (''password'' \<mapsto> JStr hashedPassword, ''isAdmin'' \<mapsto> JBool False)"

definition create :: "deps \<Rightarrow> obj \<Rightarrow> db \<Rightarrow> outcome \<times> db" where
  "create d b store =
     (if register_errors d b \<noteq> [] then (Next (BadRequestError (Stacks (register_errors d b))), store)
      else if \<not> online store then (Rejected DatabaseError, store)
      else if findOne (b ''email'') (docs store) \<noteq> None
        then (Next (BadRequestError (Text ''User with this email already exists'')), store)
      else (case hashed_password d b of
          None \<Rightarrow> (Rejected BcryptError, store)
        | Some hashedPassword \<Rightarrow>
            (let newUser = new_user b hashedPassword;
                 token = createToken d newUser
             in if schema_accepts d newUser
                then (Reply 201 (Token token), store\<lparr>docs := docs store @ [newUser]\<rparr>)
                else (Next ValidationError, store))))"

definition getAllUsers :: "deps \<Rightarrow> db \<Rightarrow> outcome" where
  "getAllUsers d store =
     (if \<not> online store then Next DatabaseError
      else Reply 200 (Users (map (\<lambda>user. delete_password (toObject d user)) (docs store))))"

definition getAUser :: "deps \<Rightarrow> string \<Rightarrow> db \<Rightarrow> outcome" where
  "getAUser d email store =
     (if \<not> online store then Rejected DatabaseError
      else (case findOne (Some (JStr email)) (docs store) of
          Some user \<Rightarrow> Reply 200 (User (delete_password (toObject d user)))
        | None \<Rightarrow> Next NotFoundError))"

text \<open>
  \<^verbatim>\<open>Users.updateOne({ email }, { firstName, lastName, password })\<close> changes the first
  document with that email, in the fields of the update that are defined.
\<close>

definition set_field :: "string \<Rightarrow> json option \<Rightarrow> obj \<Rightarrow> obj" where
  "set_field k v doc = (case v of None \<Rightarrow> doc | Some x \<Rightarrow> doc(k \<mapsto> x))"

fun updateOne :: "json option \<Rightarrow> (obj \<Rightarrow> obj) \<Rightarrow> obj list \<Rightarrow> obj list" where
  "updateOne e f [] = []"
| "updateOne e f (u # us) = (if u ''email'' = e then f u # us else u # updateOne e f us)"

definition matchedCount :: "json option \<Rightarrow> obj list \<Rightarrow> nat" where
  "matchedCount e ds = (if findOne e ds = None then 0 else 1)"

definition updateAUser :: "deps \<Rightarrow> string \<Rightarrow> obj \<Rightarrow> db \<Rightarrow> outcome \<times> db" where
  "updateAUser d email b store =
     (if edit_errors d b \<noteq> [] then (Next (BadRequestError (Stacks (edit_errors d b))), store)
      else (case hashed_password d b of
          None \<Rightarrow> (Rejected BcryptError, store)
        | Some hashedPassword \<Rightarrow>
            (if \<not> online store then (Next DatabaseError, store)
             else if matchedCount (Some (JStr email)) (docs store) = 0
               then (Next NotFoundError, store)
             else
               (let store' = store\<lparr>docs :=
                      updateOne (Some (JStr email))
                        (set_field ''firstName'' (b ''firstName'') \<circ>
                         set_field ''lastName'' (b ''lastName'') \<circ>
                         set_field ''password'' (Some (JStr hashedPassword)))
                        (docs store)\<rparr>
                in (case findOne (Some (JStr email)) (docs store') of
                      None \<Rightarrow> (Next TypeError, store')
                    | Some updatedUser \<Rightarrow>
                        (Reply 200 (User (delete_password (toObject d updatedUser))), store'))))))"

text \<open>The user objects a response carries.\<close>

fun users_of :: "outcome \<Rightarrow> obj list" where
  "users_of (Reply code (Users us)) = us"
| "users_of (Reply code (User u)) = [u]"
| "users_of _ = []"

text \<open>Sample data: a store with one user, and dependencies that accept everything.\<close>

definition alice :: obj where
  "alice = [''firstName'' \<mapsto> JStr ''Alice'', ''lastName'' \<mapsto> JStr ''Liddell'',
            ''email'' \<mapsto> JStr ''alice@example.com'', ''password'' \<mapsto> JStr ''$2b$12$hash'',
            ''isAdmin'' \<mapsto> JBool False]"

definition sample_store :: db where
  "sample_store = \<lparr>docs = [alice], online = True\<rparr>"

definition sample_deps :: deps where
  "sample_deps = \<lparr>register_errors = (\<lambda>b. []), edit_errors = (\<lambda>b. []),
     bcrypt_hash = (\<lambda>p. ''$2b$12$'' @ p), createToken = (\<lambda>u. ''token''),
     schema_accepts = (\<lambda>u. True), toObject = (\<lambda>u. u)\<rparr>"

definition bob_request :: "bool \<Rightarrow> obj" where
  "bob_request admin =
     [''firstName'' \<mapsto> JStr ''Bob'', ''lastName'' \<mapsto> JStr ''Builder'',
      ''email'' \<mapsto> JStr ''bob@example.com'', ''password'' \<mapsto> JStr ''secret'',
      ''isAdmin'' \<mapsto> JBool admin]"
section \<open>Symbolic execution\<close>

lemmas sh_defs = script_def start_def echo_def run_def set_e_def true_sh_def exit_with_def
  exit_last_def negate_def or_else_def and_also_def if_then_else_def if_then_def

lemma block_cong: "w = w' \<Longrightarrow> block fs w = block fs w'"
  by simp

lemma Echo_cong: "Echo l = Echo l"
  by simp

lemmas folds = c_v_def [symmetric] c_ns_def [symmetric] c_sec_def [symmetric]
  c_cm_def [symmetric] c_db_def [symmetric] c_be_def [symmetric] c_fe_def [symmetric]
  c_ing_def [symmetric]

lemma deploy_cmds_neq:
  "c_v \<noteq> cd_kubernetes" "c_v \<noteq> c_ns" "c_v \<noteq> c_sec"
  "c_v \<noteq> c_cm" "c_v \<noteq> c_db" "c_v \<noteq> kubectl_wait_mongodb"
  "c_v \<noteq> c_be" "c_v \<noteq> c_fe" "c_v \<noteq> c_ing"
  "cd_kubernetes \<noteq> c_v" "cd_kubernetes \<noteq> c_ns" "cd_kubernetes \<noteq> c_sec"
  "cd_kubernetes \<noteq> c_cm" "cd_kubernetes \<noteq> c_db" "cd_kubernetes \<noteq> kubectl_wait_mongodb"
  "cd_kubernetes \<noteq> c_be" "cd_kubernetes \<noteq> c_fe" "cd_kubernetes \<noteq> c_ing"
  "c_ns \<noteq> c_v" "c_ns \<noteq> cd_kubernetes" "c_ns \<noteq> c_sec"
  "c_ns \<noteq> c_cm" "c_ns \<noteq> c_db" "c_ns \<noteq> kubectl_wait_mongodb"
  "c_ns \<noteq> c_be" "c_ns \<noteq> c_fe" "c_ns \<noteq> c_ing"
  "c_sec \<noteq> c_v" "c_sec \<noteq> cd_kubernetes" "c_sec \<noteq> c_ns"
  "c_sec \<noteq> c_cm" "c_sec \<noteq> c_db" "c_sec \<noteq> kubectl_wait_mongodb"
  "c_sec \<noteq> c_be" "c_sec \<noteq> c_fe" "c_sec \<noteq> c_ing"
  "c_cm \<noteq> c_v" "c_cm \<noteq> cd_kubernetes" "c_cm \<noteq> c_ns"
  "c_cm \<noteq> c_sec" "c_cm \<noteq> c_db" "c_cm \<noteq> kubectl_wait_mongodb"
  "c_cm \<noteq> c_be" "c_cm \<noteq> c_fe" "c_cm \<noteq> c_ing"
  "c_db \<noteq> c_v" "c_db \<noteq> cd_kubernetes" "c_db \<noteq> c_ns"
  "c_db \<noteq> c_sec" "c_db \<noteq> c_cm" "c_db \<noteq> kubectl_wait_mongodb"
  "c_db \<noteq> c_be" "c_db \<noteq> c_fe" "c_db \<noteq> c_ing"
  "kubectl_wait_mongodb \<noteq> c_v" "kubectl_wait_mongodb \<noteq> cd_kubernetes" "kubectl_wait_mongodb \<noteq> c_ns"
  "kubectl_wait_mongodb \<noteq> c_sec" "kubectl_wait_mongodb \<noteq> c_cm" "kubectl_wait_mongodb \<noteq> c_db"
  "kubectl_wait_mongodb \<noteq> c_be" "kubectl_wait_mongodb \<noteq> c_fe" "kubectl_wait_mongodb \<noteq> c_ing"
  "c_be \<noteq> c_v" "c_be \<noteq> cd_kubernetes" "c_be \<noteq> c_ns"
  "c_be \<noteq> c_sec" "c_be \<noteq> c_cm" "c_be \<noteq> c_db"
  "c_be \<noteq> kubectl_wait_mongodb" "c_be \<noteq> c_fe" "c_be \<noteq> c_ing"
  "c_fe \<noteq> c_v" "c_fe \<noteq> cd_kubernetes" "c_fe \<noteq> c_ns"
  "c_fe \<noteq> c_sec" "c_fe \<noteq> c_cm" "c_fe \<noteq> c_db"
  "c_fe \<noteq> kubectl_wait_mongodb" "c_fe \<noteq> c_be" "c_fe \<noteq> c_ing"
  "c_ing \<noteq> c_v" "c_ing \<noteq> cd_kubernetes" "c_ing \<noteq> c_ns"
  "c_ing \<noteq> c_sec" "c_ing \<noteq> c_cm" "c_ing \<noteq> c_db"
  "c_ing \<noteq> kubectl_wait_mongodb" "c_ing \<noteq> c_be" "c_ing \<noteq> c_fe"
  by (simp_all add: c_v_def c_ns_def c_sec_def c_cm_def c_db_def c_be_def c_fe_def c_ing_def
      command_v_def kubectl_apply_def cd_kubernetes_def kubectl_wait_mongodb_def)

lemma manifest_of_cmds:
  "manifest_of (Exec c_v rc) = None"
  "manifest_of (Exec cd_kubernetes rc) = None"
  "manifest_of (Exec kubectl_wait_mongodb rc) = None"
  "manifest_of (Exec c_ns rc) = Some ''namespace.yaml''"
  "manifest_of (Exec c_sec rc) = Some ''secret.yaml''"
  "manifest_of (Exec c_cm rc) = Some ''configmap.yaml''"
  "manifest_of (Exec c_db rc) = Some ''mongodb-deployment.yaml''"
  "manifest_of (Exec c_be rc) = Some ''backend-deployment.yaml''"
  "manifest_of (Exec c_fe rc) = Some ''frontend-deployment.yaml''"
  "manifest_of (Exec c_ing rc) = Some ''ingress.yaml''"
  by (simp_all add: c_v_def c_ns_def c_sec_def c_cm_def c_db_def c_be_def c_fe_def c_ing_def
      command_v_def kubectl_apply_def cd_kubernetes_def kubectl_wait_mongodb_def)

lemma deploy_abort_tooling:
  assumes "cl c_v s = (r0, o0, s0)"
    and "r0 \<noteq> 0"
  shows "script (deploy_kubernetes cl) s = (Halt, final s0 (log_tooling r0 @ [Echo (cross_mark @ '' kubectl is not installed. Please install kubectl first.'')]) 1)"
  unfolding deploy_kubernetes_def folds using assms
    by (simp add: sh_defs final_def log_tooling_def log_cd_def log_ns_def log_sec_def log_cm_def
        log_db_def log_wait_def log_be_def log_fe_def log_complete_def epilogue_def
        cong: block_cong Echo_cong)

lemma deploy_abort_cd:
  assumes "cl c_v s = (0, o0, s0)"
    and "cl cd_kubernetes s0 = (r1, o1, s1)"
    and "r1 \<noteq> 0"
  shows "script (deploy_kubernetes cl) s = (Halt, final s1 (log_cd r1) r1)"
  unfolding deploy_kubernetes_def folds using assms
    by (simp add: sh_defs final_def log_tooling_def log_cd_def log_ns_def log_sec_def log_cm_def
        log_db_def log_wait_def log_be_def log_fe_def log_complete_def epilogue_def
        cong: block_cong Echo_cong)

lemma deploy_abort_ns:
  assumes "cl c_v s = (0, o0, s0)"
    and "cl cd_kubernetes s0 = (0, o1, s1)"
    and "cl c_ns s1 = (r2, o2, s2)"
    and "r2 \<noteq> 0"
  shows "script (deploy_kubernetes cl) s = (Halt, final s2 (log_ns r2) r2)"
  unfolding deploy_kubernetes_def folds using assms
    by (simp add: sh_defs final_def log_tooling_def log_cd_def log_ns_def log_sec_def log_cm_def
        log_db_def log_wait_def log_be_def log_fe_def log_complete_def epilogue_def
        cong: block_cong Echo_cong)

lemma deploy_abort_sec:
  assumes "cl c_v s = (0, o0, s0)"
    and "cl cd_kubernetes s0 = (0, o1, s1)"
    and "cl c_ns s1 = (0, o2, s2)"
    and "cl c_sec s2 = (r3, o3, s3)"
    and "r3 \<noteq> 0"
  shows "script (deploy_kubernetes cl) s = (Halt, final s3 (log_sec r3) r3)"
  unfolding deploy_kubernetes_def folds using assms
    by (simp add: sh_defs final_def log_tooling_def log_cd_def log_ns_def log_sec_def log_cm_def
        log_db_def log_wait_def log_be_def log_fe_def log_complete_def epilogue_def
        cong: block_cong Echo_cong)

lemma deploy_abort_cm:
  assumes "cl c_v s = (0, o0, s0)"
    and "cl cd_kubernetes s0 = (0, o1, s1)"
    and "cl c_ns s1 = (0, o2, s2)"
    and "cl c_sec s2 = (0, o3, s3)"
    and "cl c_cm s3 = (r4, o4, s4)"
    and "r4 \<noteq> 0"
  shows "script (deploy_kubernetes cl) s = (Halt, final s4 (log_cm r4) r4)"
  unfolding deploy_kubernetes_def folds using assms
    by (simp add: sh_defs final_def log_tooling_def log_cd_def log_ns_def log_sec_def log_cm_def
        log_db_def log_wait_def log_be_def log_fe_def log_complete_def epilogue_def
        cong: block_cong Echo_cong)

lemma deploy_abort_db:
  assumes "cl c_v s = (0, o0, s0)"
    and "cl cd_kubernetes s0 = (0, o1, s1)"
    and "cl c_ns s1 = (0, o2, s2)"
    and "cl c_sec s2 = (0, o3, s3)"
    and "cl c_cm s3 = (0, o4, s4)"
    and "cl c_db s4 = (r5, o5, s5)"
    and "r5 \<noteq> 0"
  shows "script (deploy_kubernetes cl) s = (Halt, final s5 (log_db r5) r5)"
  unfolding deploy_kubernetes_def folds using assms
    by (simp add: sh_defs final_def log_tooling_def log_cd_def log_ns_def log_sec_def log_cm_def
        log_db_def log_wait_def log_be_def log_fe_def log_complete_def epilogue_def
        cong: block_cong Echo_cong)

lemma deploy_abort_be:
  assumes "cl c_v s = (0, o0, s0)"
    and "cl cd_kubernetes s0 = (0, o1, s1)"
    and "cl c_ns s1 = (0, o2, s2)"
    and "cl c_sec s2 = (0, o3, s3)"
    and "cl c_cm s3 = (0, o4, s4)"
    and "cl c_db s4 = (0, o5, s5)"
    and "cl kubectl_wait_mongodb s5 = (rw, o6, s6)"
    and "cl c_be s6 = (r7, o7, s7)"
    and "r7 \<noteq> 0"
  shows "script (deploy_kubernetes cl) s = (Halt, final s7 (log_be rw r7) r7)"
  unfolding deploy_kubernetes_def folds using assms
    by (simp add: sh_defs final_def log_tooling_def log_cd_def log_ns_def log_sec_def log_cm_def
        log_db_def log_wait_def log_be_def log_fe_def log_complete_def epilogue_def
        cong: block_cong Echo_cong)

lemma deploy_abort_fe:
  assumes "cl c_v s = (0, o0, s0)"
    and "cl cd_kubernetes s0 = (0, o1, s1)"
    and "cl c_ns s1 = (0, o2, s2)"
    and "cl c_sec s2 = (0, o3, s3)"
    and "cl c_cm s3 = (0, o4, s4)"
    and "cl c_db s4 = (0, o5, s5)"
    and "cl kubectl_wait_mongodb s5 = (rw, o6, s6)"
    and "cl c_be s6 = (0, o7, s7)"
    and "cl c_fe s7 = (r8, o8, s8)"
    and "r8 \<noteq> 0"
  shows "script (deploy_kubernetes cl) s = (Halt, final s8 (log_fe rw r8) r8)"
  unfolding deploy_kubernetes_def folds using assms
    by (simp add: sh_defs final_def log_tooling_def log_cd_def log_ns_def log_sec_def log_cm_def
        log_db_def log_wait_def log_be_def log_fe_def log_complete_def epilogue_def
        cong: block_cong Echo_cong)

lemma deploy_go:
  assumes "cl c_v s = (0, o0, s0)"
    and "cl cd_kubernetes s0 = (0, o1, s1)"
    and "cl c_ns s1 = (0, o2, s2)"
    and "cl c_sec s2 = (0, o3, s3)"
    and "cl c_cm s3 = (0, o4, s4)"
    and "cl c_db s4 = (0, o5, s5)"
    and "cl kubectl_wait_mongodb s5 = (rw, o6, s6)"
    and "cl c_be s6 = (0, o7, s7)"
    and "cl c_fe s7 = (0, o8, s8)"
    and "cl c_ing s8 = (ri, o9, s9)"
  shows "script (deploy_kubernetes cl) s = (Go, final s9 (log_complete rw ri) 0)"
  unfolding deploy_kubernetes_def folds using assms
    by (simp add: sh_defs final_def log_tooling_def log_cd_def log_ns_def log_sec_def log_cm_def
        log_db_def log_wait_def log_be_def log_fe_def log_complete_def epilogue_def
        cong: block_cong Echo_cong)


lemma deploy_cases [case_names tooling cd ns sec cm db be fe complete]:
  obtains
    (tooling) r s' where "r \<noteq> 0" and "r = fst (cl c_v s)"
      and "script (deploy_kubernetes cl) s =
        (Halt, final s' (log_tooling r @
           [Echo (cross_mark @ '' kubectl is not installed. Please install kubectl first.'')]) 1)"
  | (cd) r s' t where "r \<noteq> 0" and "r = fst (cl cd_kubernetes t)"
      and "script (deploy_kubernetes cl) s = (Halt, final s' (log_cd r) r)"
  | (ns) r s' t where "r \<noteq> 0" and "r = fst (cl c_ns t)"
      and "script (deploy_kubernetes cl) s = (Halt, final s' (log_ns r) r)"
  | (sec) r s' t where "r \<noteq> 0" and "r = fst (cl c_sec t)"
      and "script (deploy_kubernetes cl) s = (Halt, final s' (log_sec r) r)"
  | (cm) r s' t where "r \<noteq> 0" and "r = fst (cl c_cm t)"
      and "script (deploy_kubernetes cl) s = (Halt, final s' (log_cm r) r)"
  | (db) r s' t where "r \<noteq> 0" and "r = fst (cl c_db t)"
      and "script (deploy_kubernetes cl) s = (Halt, final s' (log_db r) r)"
  | (be) rw r s' t where "r \<noteq> 0" and "r = fst (cl c_be t)"
      and "script (deploy_kubernetes cl) s = (Halt, final s' (log_be rw r) r)"
  | (fe) rw r s' t where "r \<noteq> 0" and "r = fst (cl c_fe t)"
      and "script (deploy_kubernetes cl) s = (Halt, final s' (log_fe rw r) r)"
  | (complete) rw ri s' where
      "script (deploy_kubernetes cl) s = (Go, final s' (log_complete rw ri) 0)"
proof -
  obtain r0 o0 s0 where a0: "cl c_v s = (r0, o0, s0)" by (cases "cl c_v s")
  obtain r1 o1 s1 where a1: "cl cd_kubernetes s0 = (r1, o1, s1)" by (cases "cl cd_kubernetes s0")
  obtain r2 o2 s2 where a2: "cl c_ns s1 = (r2, o2, s2)" by (cases "cl c_ns s1")
  obtain r3 o3 s3 where a3: "cl c_sec s2 = (r3, o3, s3)" by (cases "cl c_sec s2")
  obtain r4 o4 s4 where a4: "cl c_cm s3 = (r4, o4, s4)" by (cases "cl c_cm s3")
  obtain r5 o5 s5 where a5: "cl c_db s4 = (r5, o5, s5)" by (cases "cl c_db s4")
  obtain rw o6 s6 where a6: "cl kubectl_wait_mongodb s5 = (rw, o6, s6)"
    by (cases "cl kubectl_wait_mongodb s5")
  obtain r7 o7 s7 where a7: "cl c_be s6 = (r7, o7, s7)" by (cases "cl c_be s6")
  obtain r8 o8 s8 where a8: "cl c_fe s7 = (r8, o8, s8)" by (cases "cl c_fe s7")
  obtain ri o9 s9 where a9: "cl c_ing s8 = (ri, o9, s9)" by (cases "cl c_ing s8")
  show thesis
  proof (cases "r0 = 0")
    case False
    from a0 have "r0 = fst (cl c_v s)" by simp
    with False tooling deploy_abort_tooling [where cl = cl and s = s, OF a0] show thesis by blast
  next
    case z0: True
    note b0 = a0 [unfolded z0]
    show thesis
    proof (cases "r1 = 0")
      case False
      from a1 have "r1 = fst (cl cd_kubernetes s0)" by simp
      with False cd deploy_abort_cd [where cl = cl and s = s, OF b0 a1] show thesis by blast
    next
      case z1: True
      note b1 = a1 [unfolded z1]
      show thesis
      proof (cases "r2 = 0")
        case False
        from a2 have "r2 = fst (cl c_ns s1)" by simp
        with False ns deploy_abort_ns [where cl = cl and s = s, OF b0 b1 a2] show thesis by blast
      next
        case z2: True
        note b2 = a2 [unfolded z2]
        show thesis
        proof (cases "r3 = 0")
          case False
          from a3 have "r3 = fst (cl c_sec s2)" by simp
          with False sec deploy_abort_sec [where cl = cl and s = s, OF b0 b1 b2 a3] show thesis by blast
        next
          case z3: True
          note b3 = a3 [unfolded z3]
          show thesis
          proof (cases "r4 = 0")
            case False
            from a4 have "r4 = fst (cl c_cm s3)" by simp
            with False cm deploy_abort_cm [where cl = cl and s = s, OF b0 b1 b2 b3 a4] show thesis by blast
          next
            case z4: True
            note b4 = a4 [unfolded z4]
            show thesis
            proof (cases "r5 = 0")
              case False
              from a5 have "r5 = fst (cl c_db s4)" by simp
              with False db deploy_abort_db [where cl = cl and s = s, OF b0 b1 b2 b3 b4 a5] show thesis by blast
            next
              case z5: True
              note b5 = a5 [unfolded z5]
              show thesis
              proof (cases "r7 = 0")
                case False
                from a7 have "r7 = fst (cl c_be s6)" by simp
                with False be deploy_abort_be [where cl = cl and s = s, OF b0 b1 b2 b3 b4 b5 a6 a7] show thesis by blast
              next
                case z7: True
                note b7 = a7 [unfolded z7]
                show thesis
                proof (cases "r8 = 0")
                  case False
                  from a8 have "r8 = fst (cl c_fe s7)" by simp
                  with False fe deploy_abort_fe [where cl = cl and s = s, OF b0 b1 b2 b3 b4 b5 a6 b7 a8] show thesis by blast
                next
                  case z8: True
                  note b8 = a8 [unfolded z8]
                  from complete deploy_go [where cl = cl and s = s, OF b0 b1 b2 b3 b4 b5 a6 b7 b8 a9]
                  show thesis by blast
                qed
              qed
            qed
          qed
        qed
      qed
    qed
  qed
qed

lemmas log_defs = log_tooling_def log_cd_def log_ns_def log_sec_def log_cm_def log_db_def
  log_wait_def log_be_def log_fe_def log_complete_def epilogue_def

subsection \<open>Runs against the fake clusters\<close>

lemma fake_go:
  assumes "g c_v = 0" "g cd_kubernetes = 0" "g c_ns = 0" "g c_sec = 0" "g c_cm = 0" "g c_db = 0"
    and "g c_be = 0" "g c_fe = 0"
  shows "script (deploy_kubernetes (fake g)) () =
           (Go, final () (log_complete (g kubectl_wait_mongodb) (g c_ing)) 0)"
  by (rule deploy_go [where cl = "fake g" and s = "()" and ?o0.0 = "[]" and ?s0.0 = "()"
        and ?o1.0 = "[]" and ?s1.0 = "()" and ?o2.0 = "[]" and ?s2.0 = "()"
        and ?o3.0 = "[]" and ?s3.0 = "()" and ?o4.0 = "[]" and ?s4.0 = "()"
        and ?o5.0 = "[]" and ?s5.0 = "()" and ?o6.0 = "[]" and ?s6.0 = "()"
        and ?o7.0 = "[]" and ?s7.0 = "()" and ?o8.0 = "[]" and ?s8.0 = "()"
        and ?o9.0 = "[]"])
     (simp_all add: fake_def assms)

lemma run_accepting:
  "script (deploy_kubernetes accepting) () = (Go, final () (log_complete 0 0) 0)"
  unfolding accepting_def by (rule fake_go [THEN trans]) simp_all

lemma run_never_ready:
  "script (deploy_kubernetes never_ready) () = (Go, final () (log_complete 1 0) 0)"
  unfolding never_ready_def by (rule fake_go [THEN trans]) (simp_all add: deploy_cmds_neq)

lemma run_rejecting_ing:
  "script (deploy_kubernetes (rejecting (kubectl_apply ''ingress.yaml''))) () =
     (Go, final () (log_complete 0 1) 0)"
  unfolding rejecting_def folds by (rule fake_go [THEN trans]) (simp_all add: deploy_cmds_neq)

lemma run_rejecting_cm:
  "script (deploy_kubernetes (rejecting (kubectl_apply ''configmap.yaml''))) () =
     (Halt, final () (log_cm 1) 1)"
  unfolding rejecting_def folds
  by (rule deploy_abort_cm [where ?o0.0 = "[]" and ?s0.0 = "()"
        and ?o1.0 = "[]" and ?s1.0 = "()" and ?o2.0 = "[]" and ?s2.0 = "()"
        and ?o3.0 = "[]" and ?s3.0 = "()" and ?o4.0 = "[]"])
     (simp_all add: fake_def deploy_cmds_neq)

lemma run_rejecting_v:
  "script (deploy_kubernetes (rejecting (command_v ''kubectl''))) () =
     (Halt, final () (log_tooling 1 @
        [Echo (cross_mark @ '' kubectl is not installed. Please install kubectl first.'')]) 1)"
  unfolding rejecting_def folds
  by (rule deploy_abort_tooling [where ?o0.0 = "[]"]) (simp_all add: fake_def)

subsection \<open>What each transcript shows\<close>

lemma map_filter_append:
  "List.map_filter f (xs @ ys) = List.map_filter f xs @ List.map_filter f ys"
  by (simp add: List.map_filter_def)

lemma obs_append:
  "submissions (xs @ ys) = submissions xs @ submissions ys"
  "calls (xs @ ys) = calls xs @ calls ys"
  "warnings (xs @ ys) = warnings xs @ warnings ys"
  "failures (xs @ ys) = failures xs @ failures ys"
  by (simp_all add: submissions_def calls_def warnings_def failures_def map_filter_append)

lemma obs_Nil:
  "submissions [] = []" "calls [] = []" "warnings [] = []" "failures [] = []"
  by (simp_all add: submissions_def calls_def warnings_def failures_def List.map_filter_simps)

lemma obs_Echo:
  "submissions (Echo l # tr) = submissions tr"
  "calls (Echo l # tr) = calls tr"
  "warnings (Echo l # tr) = (if is_warning l then l # warnings tr else warnings tr)"
  "failures (Echo l # tr) = failures tr"
  by (simp_all add: submissions_def calls_def warnings_def failures_def List.map_filter_simps)

lemma obs_Exec:
  "calls (Exec c rc # tr) = c # calls tr"
  "warnings (Exec c rc # tr) = warnings tr"
  "failures (Exec c rc # tr) = (if rc = 0 then failures tr else (c, rc) # failures tr)"
  by (simp_all add: calls_def warnings_def failures_def List.map_filter_simps)

lemma submissions_Exec:
  "submissions (Exec c_v rc # tr) = submissions tr"
  "submissions (Exec cd_kubernetes rc # tr) = submissions tr"
  "submissions (Exec kubectl_wait_mongodb rc # tr) = submissions tr"
  "submissions (Exec c_ns rc # tr) = ''namespace.yaml'' # submissions tr"
  "submissions (Exec c_sec rc # tr) = ''secret.yaml'' # submissions tr"
  "submissions (Exec c_cm rc # tr) = ''configmap.yaml'' # submissions tr"
  "submissions (Exec c_db rc # tr) = ''mongodb-deployment.yaml'' # submissions tr"
  "submissions (Exec c_be rc # tr) = ''backend-deployment.yaml'' # submissions tr"
  "submissions (Exec c_fe rc # tr) = ''frontend-deployment.yaml'' # submissions tr"
  "submissions (Exec c_ing rc # tr) = ''ingress.yaml'' # submissions tr"
  by (simp_all add: submissions_def List.map_filter_simps manifest_of_cmds)

lemma failed_iff:
  "(Exec c rc \<in> set tr \<and> rc \<noteq> 0) = ((c, rc) \<in> set (failures tr))"
proof (induction tr)
  case Nil
  show ?case by (simp add: obs_Nil)
next
  case (Cons a tr)
  then show ?case by (cases a) (auto simp add: obs_Echo obs_Exec)
qed

lemma is_warning_lines:
  "\<not> is_warning (rocket @ l)" "\<not> is_warning (cross_mark @ l)" "\<not> is_warning (package @ l)"
  "\<not> is_warning (locked_key @ l)" "\<not> is_warning (gear @ l)" "\<not> is_warning (leaf @ l)"
  "\<not> is_warning (hourglass @ l)" "\<not> is_warning (wrench @ l)" "\<not> is_warning (palette @ l)"
  "\<not> is_warning (globe_meridians @ l)" "\<not> is_warning (check_mark_button @ l)"
  "\<not> is_warning (bar_chart @ l)" "\<not> is_warning (magnifier @ l)"
  "\<not> is_warning (globe_europe @ l)" "\<not> is_warning []" "\<not> is_warning (CHR '' '' # l)"
  "is_warning ingress_warning"
  by (simp_all add: is_warning_def warning_sign_def rocket_def cross_mark_def package_def
      locked_key_def gear_def leaf_def hourglass_def wrench_def palette_def globe_meridians_def
      check_mark_button_def bar_chart_def magnifier_def globe_europe_def ingress_warning_def)

lemmas obs_simps = obs_append obs_Nil obs_Echo obs_Exec submissions_Exec is_warning_lines

lemma obs_tooling:
  "submissions (log_tooling r) = []" "calls (log_tooling r) = [c_v]"
  "warnings (log_tooling r) = []"
  "failures (log_tooling r) = (if r = 0 then [] else [(c_v, r)])"
  by (simp_all add: log_tooling_def obs_simps cong: Echo_cong)

lemma obs_cd:
  "submissions (log_cd r) = []" "calls (log_cd r) = [c_v, cd_kubernetes]"
  "warnings (log_cd r) = []"
  "failures (log_cd r) = (if r = 0 then [] else [(cd_kubernetes, r)])"
  "last (log_cd r) = Exec cd_kubernetes r"
  by (simp_all add: log_cd_def obs_simps obs_tooling cong: Echo_cong)

lemma obs_ns:
  "submissions (log_ns r) = [''namespace.yaml'']" "calls (log_ns r) = [c_v, cd_kubernetes, c_ns]"
  "warnings (log_ns r) = []"
  "failures (log_ns r) = (if r = 0 then [] else [(c_ns, r)])"
  "last (log_ns r) = Exec c_ns r"
  by (simp_all add: log_ns_def obs_simps obs_cd cong: Echo_cong)

lemma obs_sec:
  "submissions (log_sec r) = [''namespace.yaml'', ''secret.yaml'']"
  "calls (log_sec r) = [c_v, cd_kubernetes, c_ns, c_sec]"
  "warnings (log_sec r) = []"
  "failures (log_sec r) = (if r = 0 then [] else [(c_sec, r)])"
  "last (log_sec r) = Exec c_sec r"
  by (simp_all add: log_sec_def obs_simps obs_ns cong: Echo_cong)

lemma obs_cm:
  "submissions (log_cm r) = [''namespace.yaml'', ''secret.yaml'', ''configmap.yaml'']"
  "calls (log_cm r) = [c_v, cd_kubernetes, c_ns, c_sec, c_cm]"
  "warnings (log_cm r) = []"
  "failures (log_cm r) = (if r = 0 then [] else [(c_cm, r)])"
  "last (log_cm r) = Exec c_cm r"
  by (simp_all add: log_cm_def obs_simps obs_sec cong: Echo_cong)

lemma obs_db:
  "submissions (log_db r) =
     [''namespace.yaml'', ''secret.yaml'', ''configmap.yaml'', ''mongodb-deployment.yaml'']"
  "calls (log_db r) = [c_v, cd_kubernetes, c_ns, c_sec, c_cm, c_db]"
  "warnings (log_db r) = []"
  "failures (log_db r) = (if r = 0 then [] else [(c_db, r)])"
  "last (log_db r) = Exec c_db r"
  by (simp_all add: log_db_def obs_simps obs_cm cong: Echo_cong)

lemma obs_wait:
  "submissions (log_wait rw) =
     [''namespace.yaml'', ''secret.yaml'', ''configmap.yaml'', ''mongodb-deployment.yaml'']"
  "calls (log_wait rw) = [c_v, cd_kubernetes, c_ns, c_sec, c_cm, c_db, kubectl_wait_mongodb]"
  "warnings (log_wait rw) = []"
  "failures (log_wait rw) = (if rw = 0 then [] else [(kubectl_wait_mongodb, rw)])"
  by (simp_all add: log_wait_def obs_simps obs_db cong: Echo_cong)

lemma obs_be:
  "submissions (log_be rw r) =
     [''namespace.yaml'', ''secret.yaml'', ''configmap.yaml'', ''mongodb-deployment.yaml'',
      ''backend-deployment.yaml'']"
  "calls (log_be rw r) =
     [c_v, cd_kubernetes, c_ns, c_sec, c_cm, c_db, kubectl_wait_mongodb, c_be]"
  "warnings (log_be rw r) = []"
  "failures (log_be rw r) =
     (if rw = 0 then [] else [(kubectl_wait_mongodb, rw)]) @ (if r = 0 then [] else [(c_be, r)])"
  "last (log_be rw r) = Exec c_be r"
  by (simp_all add: log_be_def obs_simps obs_wait cong: Echo_cong)

lemma obs_fe:
  "submissions (log_fe rw r) =
     [''namespace.yaml'', ''secret.yaml'', ''configmap.yaml'', ''mongodb-deployment.yaml'',
      ''backend-deployment.yaml'', ''frontend-deployment.yaml'']"
  "calls (log_fe rw r) =
     [c_v, cd_kubernetes, c_ns, c_sec, c_cm, c_db, kubectl_wait_mongodb, c_be, c_fe]"
  "warnings (log_fe rw r) = []"
  "failures (log_fe rw r) =
     (if rw = 0 then [] else [(kubectl_wait_mongodb, rw)]) @ (if r = 0 then [] else [(c_fe, r)])"
  "last (log_fe rw r) = Exec c_fe r"
  by (simp_all add: log_fe_def obs_simps obs_be cong: Echo_cong)

lemma obs_epilogue:
  "submissions epilogue = []" "calls epilogue = []" "warnings epilogue = []"
  "failures epilogue = []"
  by (simp_all add: epilogue_def obs_simps cong: Echo_cong)

lemma obs_complete:
  "submissions (log_complete rw ri) =
     [''namespace.yaml'', ''secret.yaml'', ''configmap.yaml'', ''mongodb-deployment.yaml'',
      ''backend-deployment.yaml'', ''frontend-deployment.yaml'', ''ingress.yaml'']"
  "calls (log_complete rw ri) =
     [c_v, cd_kubernetes, c_ns, c_sec, c_cm, c_db, kubectl_wait_mongodb, c_be, c_fe, c_ing]"
  "warnings (log_complete rw ri) = (if ri = 0 then [] else [ingress_warning])"
  "failures (log_complete rw ri) =
     (if rw = 0 then [] else [(kubectl_wait_mongodb, rw)]) @ (if ri = 0 then [] else [(c_ing, ri)])"
  by (simp_all add: log_complete_def obs_simps obs_fe obs_epilogue cong: Echo_cong)

lemmas obs_logs = obs_tooling obs_cd obs_ns obs_sec obs_cm obs_db obs_wait obs_be obs_fe
  obs_complete obs_Nil obs_Echo obs_append is_warning_lines

lemma final_simps:
  "transcript (final s tr rc) = tr" "status (final s tr rc) = rc" "cluster (final s tr rc) = s"
  by (simp_all add: final_def)

lemma after_wait:
  "after_event (Exec kubectl_wait_mongodb rw) (log_wait rw @ Echo l # tr) = Some (Echo l)"
  by (simp add: log_defs deploy_cmds_neq)

lemma after_wait_logs:
  "after_event (Exec kubectl_wait_mongodb rw) (log_be rw r) =
     Some (Echo (wrench @ '' Deploying backend...''))"
  "after_event (Exec kubectl_wait_mongodb rw) (log_fe rw r) =
     Some (Echo (wrench @ '' Deploying backend...''))"
  "after_event (Exec kubectl_wait_mongodb rw) (log_complete rw ri) =
     Some (Echo (wrench @ '' Deploying backend...''))"
  by (simp_all add: log_be_def log_fe_def log_complete_def after_wait del: after_event.simps)

section \<open>The deployment script: order of submission\<close>

text \<open>
  C1. Every run of the deployment submits the manifests in the fixed order: what a run has
  submitted is always an initial part of namespace, secret, configuration, database,
  backend, frontend, ingress, and a run that reaches the end of the script has submitted
  all seven, in this order.
\<close>

theorem deploy_submits_in_order:
  assumes "script (deploy_kubernetes cl) s = (fl, w)"
  shows "prefix (submissions (transcript w)) manifest_order \<and>
         (terminal (fl, w) = Complete \<longrightarrow> submissions (transcript w) = manifest_order)"
  using assms
  by (cases rule: deploy_cases [of cl s])
     (auto simp add: final_simps obs_logs manifest_order_def terminal_def)

theorem deploy_submits_in_order_witness:
  "terminal (script (deploy_kubernetes accepting) ()) = Complete \<and>
   submissions (transcript (snd (script (deploy_kubernetes accepting) ()))) =
     [''namespace.yaml'', ''secret.yaml'', ''configmap.yaml'', ''mongodb-deployment.yaml'',
      ''backend-deployment.yaml'', ''frontend-deployment.yaml'', ''ingress.yaml'']"
  using deploy_submits_in_order [OF run_accepting]
  by (simp add: run_accepting terminal_def manifest_order_def)

section \<open>The deployment script: failures that abort and failures that do not\<close>

text \<open>
  C3. When the cluster rejects the configuration manifest, that is, when the call
  \<^verbatim>\<open>kubectl apply -f configmap.yaml\<close> of a run returned a non-zero status, the run is
  aborted with that status, the rejected call is the last thing the run did, and what it
  submitted is the manifest order up to the rejected manifest: the database, the backend,
  the frontend and the ingress were not submitted. The same holds for the namespace, the
  secret and the database manifest.
\<close>

theorem deploy_rejected_manifest_aborts:
  assumes "script (deploy_kubernetes cl) s = (fl, w)"
    and "f \<in> {''namespace.yaml'', ''secret.yaml'', ''configmap.yaml'', ''mongodb-deployment.yaml''}"
    and "Exec (kubectl_apply f) rc \<in> set (transcript w)"
    and "rc \<noteq> 0"
  shows "terminal (fl, w) = Aborted \<and> exit_code (fl, w) = rc \<and>
         last (transcript w) = Exec (kubectl_apply f) rc \<and>
         submissions (transcript w) = takeWhile (\<lambda>g. g \<noteq> f) manifest_order @ [f]"
proof -
  from assms(3,4) have bad: "(kubectl_apply f, rc) \<in> set (failures (transcript w))"
    by (simp add: failed_iff [symmetric])
  from assms(2) consider "f = ''namespace.yaml''" | "f = ''secret.yaml''"
    | "f = ''configmap.yaml''" | "f = ''mongodb-deployment.yaml''"
    by blast
  then show ?thesis
  proof cases
    case 1
    from assms(1) bad show ?thesis
      unfolding 1 folds
      by (cases rule: deploy_cases [of cl s])
         (auto simp add: final_simps obs_logs deploy_cmds_neq manifest_order_def terminal_def
            exit_code_def split: if_splits)
  next
    case 2
    from assms(1) bad show ?thesis
      unfolding 2 folds
      by (cases rule: deploy_cases [of cl s])
         (auto simp add: final_simps obs_logs deploy_cmds_neq manifest_order_def terminal_def
            exit_code_def split: if_splits)
  next
    case 3
    from assms(1) bad show ?thesis
      unfolding 3 folds
      by (cases rule: deploy_cases [of cl s])
         (auto simp add: final_simps obs_logs deploy_cmds_neq manifest_order_def terminal_def
            exit_code_def split: if_splits)
  next
    case 4
    from assms(1) bad show ?thesis
      unfolding 4 folds
      by (cases rule: deploy_cases [of cl s])
         (auto simp add: final_simps obs_logs deploy_cmds_neq manifest_order_def terminal_def
            exit_code_def split: if_splits)
  qed
qed

theorem deploy_rejected_manifest_aborts_witness:
  "Exec (kubectl_apply ''configmap.yaml'') 1 \<in>
     set (transcript (snd (script (deploy_kubernetes (rejecting (kubectl_apply ''configmap.yaml''))) ()))) \<and>
   terminal (script (deploy_kubernetes (rejecting (kubectl_apply ''configmap.yaml''))) ()) = Aborted \<and>
   exit_code (script (deploy_kubernetes (rejecting (kubectl_apply ''configmap.yaml''))) ()) = 1 \<and>
   submissions (transcript (snd (script (deploy_kubernetes (rejecting (kubectl_apply ''configmap.yaml''))) ()))) =
     [''namespace.yaml'', ''secret.yaml'', ''configmap.yaml'']"
proof -
  have m: "Exec (kubectl_apply ''configmap.yaml'') 1 \<in> set (transcript (final () (log_cm 1) 1))"
    by (simp add: final_def log_defs c_cm_def)
  from deploy_rejected_manifest_aborts [OF run_rejecting_cm _ m] m show ?thesis
    by (simp add: run_rejecting_cm manifest_order_def)
qed

text \<open>
  C4. When the cluster rejects the ingress manifest, that is, when the call
  \<^verbatim>\<open>kubectl apply -f ingress.yaml\<close> of a run returned a non-zero status, the run is
  complete all the same and its exit status is 0; it printed exactly one warning, the one
  about the ingress; and it skipped nothing: it made every external call of the script and
  submitted all seven manifests.
\<close>

theorem deploy_ingress_rejected_is_warning:
  assumes "script (deploy_kubernetes cl) s = (fl, w)"
    and "Exec (kubectl_apply ''ingress.yaml'') rc \<in> set (transcript w)"
    and "rc \<noteq> 0"
  shows "terminal (fl, w) = Complete \<and> exit_code (fl, w) = 0 \<and>
         warnings (transcript w) = [ingress_warning] \<and>
         calls (transcript w) = deploy_calls \<and>
         submissions (transcript w) = manifest_order"
proof -
  from assms(2,3) have bad: "(kubectl_apply ''ingress.yaml'', rc) \<in> set (failures (transcript w))"
    by (simp add: failed_iff [symmetric])
  from assms(1) bad show ?thesis
    unfolding folds deploy_calls_def
    by (cases rule: deploy_cases [of cl s])
       (auto simp add: final_simps obs_logs deploy_cmds_neq manifest_order_def terminal_def
          exit_code_def split: if_splits)
qed

theorem deploy_ingress_rejected_is_warning_witness:
  "Exec (kubectl_apply ''ingress.yaml'') 1 \<in>
     set (transcript (snd (script (deploy_kubernetes (rejecting (kubectl_apply ''ingress.yaml''))) ()))) \<and>
   terminal (script (deploy_kubernetes (rejecting (kubectl_apply ''ingress.yaml''))) ()) = Complete \<and>
   exit_code (script (deploy_kubernetes (rejecting (kubectl_apply ''ingress.yaml''))) ()) = 0 \<and>
   warnings (transcript (snd (script (deploy_kubernetes (rejecting (kubectl_apply ''ingress.yaml''))) ()))) =
     [ingress_warning]"
proof -
  have m: "Exec (kubectl_apply ''ingress.yaml'') 1 \<in> set (transcript (final () (log_complete 0 1) 0))"
    by (simp add: final_def log_defs c_ing_def)
  from deploy_ingress_rejected_is_warning [OF run_rejecting_ing m] m show ?thesis
    by (simp add: run_rejecting_ing)
qed

text \<open>
  C5. The first external call of every run asks whether \<^verbatim>\<open>kubectl\<close> can be found
  (\<^verbatim>\<open>command -v kubectl\<close>). When it cannot, the run is aborted with exit status 1 after
  printing that \<^verbatim>\<open>kubectl\<close> is not installed: the check is the only external call the run
  made, and no manifest was submitted.
\<close>

theorem deploy_requires_kubectl:
  assumes "script (deploy_kubernetes cl) s = (fl, w)"
  shows "calls (transcript w) \<noteq> [] \<and> hd (calls (transcript w)) = command_v ''kubectl'' \<and>
         (fst (cl (command_v ''kubectl'') s) \<noteq> 0 \<longrightarrow>
            terminal (fl, w) = Aborted \<and> exit_code (fl, w) = 1 \<and>
            calls (transcript w) = [command_v ''kubectl''] \<and>
            submissions (transcript w) = [] \<and>
            last (transcript w) =
              Echo (cross_mark @ '' kubectl is not installed. Please install kubectl first.''))"
proof -
  have first: "calls (transcript w) \<noteq> [] \<and> hd (calls (transcript w)) = c_v"
    using assms
    by (cases rule: deploy_cases [of cl s]) (auto simp add: final_simps obs_logs)
  have missing: "terminal (fl, w) = Aborted \<and> exit_code (fl, w) = 1 \<and>
      calls (transcript w) = [c_v] \<and> submissions (transcript w) = [] \<and>
      last (transcript w) =
        Echo (cross_mark @ '' kubectl is not installed. Please install kubectl first.'')"
    if no: "fst (cl c_v s) \<noteq> 0"
  proof -
    obtain r0 o0 s0 where a0: "cl c_v s = (r0, o0, s0)" by (cases "cl c_v s")
    with no have "r0 \<noteq> 0" by simp
    from deploy_abort_tooling [where cl = cl and s = s, OF a0 this] assms
    show ?thesis
      by (auto simp add: final_simps obs_logs terminal_def exit_code_def)
  qed
  from first missing show ?thesis
    unfolding folds by blast
qed

theorem deploy_requires_kubectl_witness:
  "fst (rejecting (command_v ''kubectl'') (command_v ''kubectl'') ()) \<noteq> 0 \<and>
   terminal (script (deploy_kubernetes (rejecting (command_v ''kubectl''))) ()) = Aborted \<and>
   exit_code (script (deploy_kubernetes (rejecting (command_v ''kubectl''))) ()) = 1 \<and>
   submissions (transcript (snd (script (deploy_kubernetes (rejecting (command_v ''kubectl''))) ()))) = []"
proof -
  have m: "fst (rejecting (command_v ''kubectl'') (command_v ''kubectl'') ()) \<noteq> 0"
    by (simp add: rejecting_def fake_def)
  from deploy_requires_kubectl [OF run_rejecting_v] m show ?thesis
    by (simp add: run_rejecting_v)
qed

text \<open>
  C2, as the script has it. When the wait for the database
  (\<^verbatim>\<open>kubectl wait ... --timeout=120s\<close>) returns a non-zero status, the script takes the
  failure up with \<^verbatim>\<open>|| true\<close> and prints nothing about it: the next thing in the
  transcript is the line that announces the backend, and the backend manifest is
  submitted. The only warning a run can print is the one about the ingress. When the
  backend and the frontend manifest are accepted, the run is complete with exit status 0
  and has made every external call of the script.
\<close>

theorem deploy_readiness_timeout_is_silent:
  assumes "script (deploy_kubernetes cl) s = (fl, w)"
    and "Exec (Simple [''kubectl'', ''wait'', ''--for=condition=ready'', ''pod'', ''-l'',
            ''app=mongodb'', ''-n'', ''fullstack-app'', ''--timeout=120s'']) rc \<in> set (transcript w)"
    and "rc \<noteq> 0"
  shows "after_event (Exec kubectl_wait_mongodb rc) (transcript w) =
           Some (Echo (wrench @ '' Deploying backend...'')) \<and>
         ''backend-deployment.yaml'' \<in> set (submissions (transcript w)) \<and>
         set (warnings (transcript w)) \<subseteq> {ingress_warning} \<and>
         (Exec (kubectl_apply ''backend-deployment.yaml'') 0 \<in> set (transcript w) \<and>
          Exec (kubectl_apply ''frontend-deployment.yaml'') 0 \<in> set (transcript w) \<longrightarrow>
            terminal (fl, w) = Complete \<and> exit_code (fl, w) = 0 \<and>
            calls (transcript w) = deploy_calls)"
proof -
  from assms(2,3) have bad: "(kubectl_wait_mongodb, rc) \<in> set (failures (transcript w))"
    by (simp add: failed_iff [symmetric] kubectl_wait_mongodb_def)
  have nbe: "Exec c_be 0 \<notin> set (log_be rw r)" if "r \<noteq> 0" for rw r
    using that by (simp add: log_defs deploy_cmds_neq)
  have nfe: "Exec c_fe 0 \<notin> set (log_fe rw r)" if "r \<noteq> 0" for rw r
    using that by (simp add: log_defs deploy_cmds_neq)
  show ?thesis
  proof (cases rule: deploy_cases [of cl s])
    case (be rw r s' t)
    with assms(1) bad nbe [of r rw] show ?thesis
      unfolding folds deploy_calls_def
      by (auto simp add: final_simps obs_logs deploy_cmds_neq after_wait_logs
          split: if_splits)
  next
    case (fe rw r s' t)
    with assms(1) bad nfe [of r rw] show ?thesis
      unfolding folds deploy_calls_def
      by (auto simp add: final_simps obs_logs deploy_cmds_neq after_wait_logs
          split: if_splits)
  next
    case (complete rw ri s')
    with assms(1) bad show ?thesis
      unfolding folds deploy_calls_def
      by (auto simp add: final_simps obs_logs deploy_cmds_neq after_wait_logs
          terminal_def exit_code_def split: if_splits)
  qed (insert assms(1) bad, auto simp add: final_simps obs_logs deploy_cmds_neq split: if_splits)
qed

theorem deploy_readiness_timeout_is_silent_witness:
  "Exec kubectl_wait_mongodb 1 \<in> set (transcript (snd (script (deploy_kubernetes never_ready) ()))) \<and>
   after_event (Exec kubectl_wait_mongodb 1) (transcript (snd (script (deploy_kubernetes never_ready) ()))) =
     Some (Echo (wrench @ '' Deploying backend...'')) \<and>
   terminal (script (deploy_kubernetes never_ready) ()) = Complete \<and>
   exit_code (script (deploy_kubernetes never_ready) ()) = 0"
proof -
  have m: "Exec kubectl_wait_mongodb 1 \<in> set (transcript (final () (log_complete 1 0) 0))"
    by (simp add: final_def log_defs)
  have b: "Exec (kubectl_apply ''backend-deployment.yaml'') 0 \<in> set (transcript (final () (log_complete 1 0) 0))"
    "Exec (kubectl_apply ''frontend-deployment.yaml'') 0 \<in> set (transcript (final () (log_complete 1 0) 0))"
    by (simp_all add: final_def log_defs c_be_def c_fe_def)
  from deploy_readiness_timeout_is_silent [OF run_never_ready m [unfolded kubectl_wait_mongodb_def]] m b
  show ?thesis
    by (simp add: run_never_ready)
qed

text \<open>
  C2, as the specification has it, fails: against a cluster that never reports the database
  ready and accepts everything else, the run is complete and has printed no warning at all.
\<close>

theorem deploy_readiness_timeout_no_warning:
  "Exec kubectl_wait_mongodb 1 \<in> set (transcript (snd (script (deploy_kubernetes never_ready) ()))) \<and>
   terminal (script (deploy_kubernetes never_ready) ()) = Complete \<and>
   warnings (transcript (snd (script (deploy_kubernetes never_ready) ()))) = []"
  by (simp add: run_never_ready final_simps obs_logs terminal_def) (simp add: log_defs)

section \<open>The deployment script: running it twice\<close>









section \<open>The build script: a failed build is fatal\<close>

lemmas blog_defs = blog_backend_def blog_frontend_def blog_images_def blog_complete_def

lemma build_abort_backend:
  assumes "cl docker_build_backend s = (r0, o0, s0)" and "r0 \<noteq> 0"
  shows "script (build_docker cl) s = (Halt, final s0 (blog_backend r0) r0)"
  unfolding build_docker_def using assms
  by (simp add: sh_defs final_def blog_defs cong: block_cong Echo_cong)

lemma build_abort_frontend:
  assumes "cl docker_build_backend s = (0, o0, s0)"
    and "cl docker_build_frontend s0 = (r1, o1, s1)" and "r1 \<noteq> 0"
  shows "script (build_docker cl) s = (Halt, final s1 (blog_frontend r1) r1)"
  unfolding build_docker_def using assms
  by (simp add: sh_defs final_def blog_defs cong: block_cong Echo_cong)

lemma build_abort_images:
  assumes "cl docker_build_backend s = (0, o0, s0)"
    and "cl docker_build_frontend s0 = (0, o1, s1)"
    and "cl docker_images_grep s1 = (r2, o2, s2)" and "r2 \<noteq> 0"
  shows "script (build_docker cl) s = (Halt, final s2 (blog_images r2) r2)"
  unfolding build_docker_def using assms
  by (simp add: sh_defs final_def blog_defs cong: block_cong Echo_cong)

lemma build_go:
  assumes "cl docker_build_backend s = (0, o0, s0)"
    and "cl docker_build_frontend s0 = (0, o1, s1)"
    and "cl docker_images_grep s1 = (0, o2, s2)"
  shows "script (build_docker cl) s = (Go, final s2 blog_complete 0)"
  unfolding build_docker_def using assms
  by (simp add: sh_defs final_def blog_defs cong: block_cong Echo_cong)

lemma build_cases [case_names backend frontend images complete]:
  obtains
    (backend) r s' where "r \<noteq> 0"
      and "script (build_docker cl) s = (Halt, final s' (blog_backend r) r)"
  | (frontend) r s' where "r \<noteq> 0"
      and "script (build_docker cl) s = (Halt, final s' (blog_frontend r) r)"
  | (images) r s' where "r \<noteq> 0"
      and "script (build_docker cl) s = (Halt, final s' (blog_images r) r)"
  | (complete) s' where "script (build_docker cl) s = (Go, final s' blog_complete 0)"
proof -
  obtain r0 o0 s0 where a0: "cl docker_build_backend s = (r0, o0, s0)"
    by (cases "cl docker_build_backend s")
  obtain r1 o1 s1 where a1: "cl docker_build_frontend s0 = (r1, o1, s1)"
    by (cases "cl docker_build_frontend s0")
  obtain r2 o2 s2 where a2: "cl docker_images_grep s1 = (r2, o2, s2)"
    by (cases "cl docker_images_grep s1")
  show thesis
  proof (cases "r0 = 0")
    case False
    with backend build_abort_backend [where cl = cl and s = s, OF a0] show thesis by blast
  next
    case z0: True
    note b0 = a0 [unfolded z0]
    show thesis
    proof (cases "r1 = 0")
      case False
      with frontend build_abort_frontend [where cl = cl and s = s, OF b0 a1] show thesis by blast
    next
      case z1: True
      note b1 = a1 [unfolded z1]
      show thesis
      proof (cases "r2 = 0")
        case False
        with images build_abort_images [where cl = cl and s = s, OF b0 b1 a2] show thesis
          by blast
      next
        case z2: True
        from complete build_go [where cl = cl and s = s, OF b0 b1 a2 [unfolded z2]]
        show thesis by blast
      qed
    qed
  qed
qed

lemma build_cmds_neq:
  "docker_build_backend \<noteq> docker_build_frontend" "docker_build_frontend \<noteq> docker_build_backend"
  "docker_build_backend \<noteq> docker_images_grep" "docker_images_grep \<noteq> docker_build_backend"
  "docker_build_frontend \<noteq> docker_images_grep" "docker_images_grep \<noteq> docker_build_frontend"
  by (simp_all add: docker_build_backend_def docker_build_frontend_def docker_images_grep_def)

lemma build_cmds_kind:
  "is_build docker_build_backend" "is_build docker_build_frontend"
  "\<not> is_build docker_images_grep"
  "\<not> is_rollout_call docker_build_backend" "\<not> is_rollout_call docker_build_frontend"
  "\<not> is_rollout_call docker_images_grep"
  "service_unit docker_build_backend = ''backend''"
  "service_unit docker_build_frontend = ''frontend''"
  by (simp_all add: docker_build_backend_def docker_build_frontend_def docker_images_grep_def
      is_rollout_call_def suffix_def)

lemma lines_of_simps:
  "lines_of [] = []" "lines_of (Echo l # tr) = l # lines_of tr"
  "lines_of (Exec c rc # tr) = lines_of tr"
  "lines_of (xs @ ys) = lines_of xs @ lines_of ys"
  by (simp_all add: lines_of_def List.map_filter_simps map_filter_append)

lemma obs_blog_backend:
  "calls (blog_backend r) = [docker_build_backend]"
  "failures (blog_backend r) = (if r = 0 then [] else [(docker_build_backend, r)])"
  "last (blog_backend r) = Exec docker_build_backend r"
  "last (lines_of (blog_backend r)) = package @ '' Building backend image...''"
  by (simp_all add: blog_backend_def obs_Nil obs_Echo obs_Exec lines_of_simps cong: Echo_cong)

lemma obs_blog_frontend:
  "calls (blog_frontend r) = [docker_build_backend, docker_build_frontend]"
  "failures (blog_frontend r) = (if r = 0 then [] else [(docker_build_frontend, r)])"
  "last (blog_frontend r) = Exec docker_build_frontend r"
  "last (lines_of (blog_frontend r)) = package @ '' Building frontend image...''"
  by (simp_all add: blog_frontend_def obs_blog_backend obs_append obs_Nil obs_Echo obs_Exec
      lines_of_simps cong: Echo_cong)

lemma obs_blog_images:
  "calls (blog_images r) = [docker_build_backend, docker_build_frontend, docker_images_grep]"
  "failures (blog_images r) = (if r = 0 then [] else [(docker_images_grep, r)])"
  by (simp_all add: blog_images_def obs_blog_frontend obs_append obs_Nil obs_Echo obs_Exec
      cong: Echo_cong)

lemma obs_blog_complete:
  "calls blog_complete = [docker_build_backend, docker_build_frontend, docker_images_grep]"
  "failures blog_complete = []"
  by (simp_all add: blog_complete_def obs_blog_images obs_append obs_Nil obs_Echo obs_Exec
      cong: Echo_cong)

lemmas obs_blogs = obs_blog_backend obs_blog_frontend obs_blog_images obs_blog_complete

lemma run_rejecting_backend:
  "script (build_docker (rejecting docker_build_backend)) () = (Halt, final () (blog_backend 1) 1)"
  unfolding rejecting_def
  by (rule build_abort_backend [where ?o0.0 = "[]"]) (simp_all add: fake_def)

lemma run_failing_backend:
  "rc \<noteq> 0 \<Longrightarrow>
   script (build_docker (failing docker_build_backend rc)) () = (Halt, final () (blog_backend rc) rc)"
  unfolding failing_def
  by (rule build_abort_backend [where ?o0.0 = "[]"]) (simp_all add: fake_def)

lemma run_build_accepting:
  "script (build_docker accepting) () = (Go, final () blog_complete 0)"
  unfolding accepting_def
  by (rule build_go [where ?o0.0 = "[]" and ?s0.0 = "()" and ?o1.0 = "[]" and ?s1.0 = "()"
        and ?o2.0 = "[]"])
     (simp_all add: fake_def)

lemma lines_blog:
  "lines_of (blog_backend r) =
     [whale @ '' Building Docker Images...'', package @ '' Building backend image...'']"
  "lines_of (blog_frontend r) =
     [whale @ '' Building Docker Images...'', package @ '' Building backend image...'',
      package @ '' Building frontend image...'']"
  "take 2 (lines_of blog_complete) =
     [whale @ '' Building Docker Images...'', package @ '' Building backend image...'']"
  by (simp_all add: blog_defs lines_of_simps cong: Echo_cong)

text \<open>
  C6, as the specification has it, fails: the script reports nothing about a failed build.
  When the build of the backend image fails, the run consists of the title, the progress
  line \<^verbatim>\<open>Building backend image...\<close> and the call of \<^verbatim>\<open>docker build\<close>. The two lines are
  printed before the build is started; a run in which every build succeeds begins with the
  same two lines, and so does a run in which the build fails with another status. After the
  failed call the script prints nothing: no line names the service as failed, and none gives
  the status, which is to be had from the exit status of the script alone.
\<close>

theorem build_failure_prints_no_report:
  "transcript (snd (script (build_docker (rejecting docker_build_backend)) ())) =
     [Echo (whale @ '' Building Docker Images...''),
      Echo (package @ '' Building backend image...''),
      Exec docker_build_backend 1] \<and>
   exit_code (script (build_docker (rejecting docker_build_backend)) ()) = 1 \<and>
   terminal (script (build_docker accepting) ()) = Complete \<and>
   take 2 (lines_of (transcript (snd (script (build_docker accepting) ())))) =
     lines_of (transcript (snd (script (build_docker (rejecting docker_build_backend)) ()))) \<and>
   exit_code (script (build_docker (failing docker_build_backend 2)) ()) = 2 \<and>
   lines_of (transcript (snd (script (build_docker (failing docker_build_backend 2)) ()))) =
     lines_of (transcript (snd (script (build_docker (rejecting docker_build_backend)) ())))"
  by (simp add: run_rejecting_backend run_build_accepting run_failing_backend final_simps
      lines_blog exit_code_def terminal_def)
     (simp add: blog_backend_def)

text \<open>
  C6, as the script has it. A failed image build is fatal and is not reported. When a
  \<^verbatim>\<open>docker build\<close> of a run returned a non-zero status, the run is aborted and its exit status
  is the status \<^verbatim>\<open>docker\<close> returned; the failed build is the last event of the run, so
  that no later image was built and nothing was printed after the failure; all the script
  has printed is its title and one progress line \<^verbatim>\<open>Building ... image...\<close> for each build
  it started, the failed one last; and the run made no call that starts the rollout: neither
  \<^verbatim>\<open>kubectl\<close> nor the deployment script is run.
\<close>

theorem build_failure_is_fatal:
  assumes "script (build_docker cl) s = (fl, w)"
    and "c \<in> {docker_build_backend, docker_build_frontend}"
    and "Exec c rc \<in> set (transcript w)"
    and "rc \<noteq> 0"
  shows "terminal (fl, w) = Aborted \<and> exit_code (fl, w) = rc \<and>
         last (transcript w) = Exec c rc \<and>
         lines_of (transcript w) =
           (whale @ '' Building Docker Images...'') #
           map (\<lambda>b. package @ '' Building '' @ service_unit b @ '' image...'')
             (builds (transcript w)) \<and>
         builds (transcript w) =
           takeWhile (\<lambda>b. b \<noteq> c) [docker_build_backend, docker_build_frontend] @ [c] \<and>
         \<not> list_ex is_rollout_call (calls (transcript w))"
proof -
  from assms(3,4) have bad: "(c, rc) \<in> set (failures (transcript w))"
    by (simp add: failed_iff [symmetric])
  from assms(1,2) bad show ?thesis
    by (cases rule: build_cases [of cl s])
       (auto simp add: final_simps obs_blogs build_cmds_neq build_cmds_kind builds_def
          lines_blog terminal_def exit_code_def split: if_splits)
qed

theorem build_failure_is_fatal_witness:
  "Exec docker_build_backend 1 \<in>
     set (transcript (snd (script (build_docker (rejecting docker_build_backend)) ()))) \<and>
   terminal (script (build_docker (rejecting docker_build_backend)) ()) = Aborted \<and>
   exit_code (script (build_docker (rejecting docker_build_backend)) ()) = 1 \<and>
   builds (transcript (snd (script (build_docker (rejecting docker_build_backend)) ()))) =
     [docker_build_backend] \<and>
   lines_of (transcript (snd (script (build_docker (rejecting docker_build_backend)) ()))) =
     [whale @ '' Building Docker Images...'', package @ '' Building backend image...'']"
proof -
  have m: "Exec docker_build_backend 1 \<in> set (transcript (final () (blog_backend 1) 1))"
    by (simp add: final_def blog_defs)
  from build_failure_is_fatal [OF run_rejecting_backend _ m] m show ?thesis
    by (simp add: run_rejecting_backend build_cmds_kind)
qed

section \<open>The verification script\<close>





















subsection \<open>The verdict lines\<close>









subsection \<open>The runs of the verification\<close>
















section \<open>The user controller\<close>

lemma delete_password_None: "delete_password u ''password'' = None"
  by (simp add: delete_password_def)

text \<open>
  C9. The user objects in the responses of \<^verbatim>\<open>getAllUsers\<close>, \<^verbatim>\<open>getAUser\<close> and
  \<^verbatim>\<open>updateAUser\<close> have no \<^verbatim>\<open>password\<close> field: each is the plain object of a stored
  document with that field deleted.
\<close>

theorem user_responses_omit_password:
  "(\<forall>u\<in>set (users_of (getAllUsers d store)). u ''password'' = None) \<and>
   (\<forall>u\<in>set (users_of (getAUser d email store)). u ''password'' = None) \<and>
   (\<forall>u\<in>set (users_of (fst (updateAUser d email b store))). u ''password'' = None)"
  by (auto simp add: getAllUsers_def getAUser_def updateAUser_def delete_password_None Let_def
      split: option.splits if_splits)

theorem user_responses_omit_password_witness:
  "alice ''password'' = Some (JStr ''$2b$12$hash'') \<and>
   getAllUsers sample_deps sample_store = Reply 200 (Users [alice(''password'' := None)]) \<and>
   (alice(''password'' := None)) ''password'' = None \<and>
   getAUser sample_deps ''alice@example.com'' sample_store = Reply 200 (User (alice(''password'' := None)))"
  using user_responses_omit_password [of sample_deps sample_store "''alice@example.com''" Map.empty]
  by (simp add: getAllUsers_def getAUser_def sample_store_def sample_deps_def alice_def
      findOne_def delete_password_def)

text \<open>
  C10. \<^verbatim>\<open>create\<close> stores at most one document, and the document it stores has
  \<^verbatim>\<open>isAdmin\<close> false whatever the request says: two requests that differ in nothing but
  an \<^verbatim>\<open>isAdmin\<close> field, both valid for the schema, have the same response and leave the
  same store.
\<close>

theorem create_never_grants_admin:
  "(docs (snd (create d b store)) = docs store \<or>
    (\<exists>u. docs (snd (create d b store)) = docs store @ [u] \<and> u ''isAdmin'' = Some (JBool False))) \<and>
   ((\<forall>k. k \<noteq> ''isAdmin'' \<longrightarrow> b k = b' k) \<and> register_errors d b = [] \<and> register_errors d b' = []
      \<longrightarrow> create d b' store = create d b store)"
proof (intro conjI impI)
  show "docs (snd (create d b store)) = docs store \<or>
    (\<exists>u. docs (snd (create d b store)) = docs store @ [u] \<and> u ''isAdmin'' = Some (JBool False))"
    by (simp add: create_def Let_def new_user_def split: option.splits)
next
  assume h: "(\<forall>k. k \<noteq> ''isAdmin'' \<longrightarrow> b k = b' k) \<and> register_errors d b = [] \<and>
    register_errors d b' = []"
  then have eq: "\<And>k. k \<noteq> ''isAdmin'' \<Longrightarrow> b' k = b k"
    by simp
  have fields: "b' ''firstName'' = b ''firstName''" "b' ''lastName'' = b ''lastName''"
    "b' ''email'' = b ''email''" "b' ''password'' = b ''password''"
    by (simp_all add: eq)
  from h have valid: "register_errors d b = []" "register_errors d b' = []"
    by simp_all
  have "new_user b' = new_user b"
    by (simp add: new_user_def fields fun_eq_iff)
  moreover have "hashed_password d b' = hashed_password d b"
    by (simp add: hashed_password_def fields)
  ultimately show "create d b' store = create d b store"
    by (simp add: create_def fields valid cong: option.case_cong)
qed

theorem create_never_grants_admin_witness:
  "register_errors sample_deps (bob_request True) = [] \<and>
   register_errors sample_deps (bob_request False) = [] \<and>
   bob_request True ''isAdmin'' = Some (JBool True) \<and>
   fst (create sample_deps (bob_request True) sample_store) = Reply 201 (Token ''token'') \<and>
   create sample_deps (bob_request True) sample_store =
     create sample_deps (bob_request False) sample_store \<and>
   last (docs (snd (create sample_deps (bob_request True) sample_store))) ''isAdmin'' =
     Some (JBool False)"
proof -
  have d: "\<forall>k. k \<noteq> ''isAdmin'' \<longrightarrow> bob_request False k = bob_request True k"
    by (simp add: bob_request_def)
  have r: "fst (create sample_deps (bob_request True) sample_store) = Reply 201 (Token ''token'')"
    "last (docs (snd (create sample_deps (bob_request True) sample_store))) ''isAdmin'' =
       Some (JBool False)"
    by (simp_all add: create_def sample_deps_def sample_store_def bob_request_def alice_def
        findOne_def hashed_password_def new_user_def)
  from create_never_grants_admin [of sample_deps "bob_request False" sample_store "bob_request True"]
    d r
  show ?thesis
    by (simp add: sample_deps_def bob_request_def)
qed

end
